theory Spec2Isabelle
  imports Main "HOL-Library.Sublist"
begin

section \<open>Go values and results\<close>

text \<open>
  A value of Go's \<^verbatim>\<open>interface{}\<close>, as far as the package looks at one: the select-map
  entries (\<^verbatim>\<open>map[string]interface{}\<close>) and \<^verbatim>\<open>ValidationError.Param\<close>. Strings are byte
  sequences, as in Go.
\<close>

datatype iface = INil | IString string | IInt int | IBool bool

text \<open>The ways a call can panic instead of returning.\<close>

datatype panic =
    SliceBoundsOutOfRange
  | NilPointerDereference
  | TypeAssertionFailed
  | TemplateMust string

datatype 'a go = Panic panic | Return 'a

section \<open>Library functions the package calls\<close>

text \<open>
  \<^verbatim>\<open>strings.Contains(s, substr)\<close>: \<^verbatim>\<open>substr\<close> occurs in \<^verbatim>\<open>s\<close> as a contiguous run of bytes.
\<close>

fun Contains :: "string \<Rightarrow> string \<Rightarrow> bool" where
  "Contains [] substr = (substr = [])"
| "Contains (c # s) substr = (prefix substr (c # s) \<or> Contains s substr)"

text \<open>
  The tables of Go's package \<^verbatim>\<open>unicode\<close>, which \<^verbatim>\<open>strings.Title\<close> consults for the runes
  above ASCII: \<^verbatim>\<open>unicode.IsLetter\<close>, \<^verbatim>\<open>unicode.IsDigit\<close>, \<^verbatim>\<open>unicode.IsSpace\<close> and the title-case
  mapping \<^verbatim>\<open>unicode.To(unicode.TitleCase, r)\<close>. The tables are data of the Go distribution;
  they are a parameter of everything that renders a message. A rune is its code point.
\<close>

record unicode =
  IsLetter :: "nat \<Rightarrow> bool"
  IsDigit :: "nat \<Rightarrow> bool"
  IsSpace :: "nat \<Rightarrow> bool"
  TitleCase :: "nat \<Rightarrow> nat"

text \<open>
  The entries of those tables for three runes, as Unicode has them: U+00E9 and U+00C9 are
  letters, the title case of U+00E9 is U+00C9, and U+00A0 is a space. Used where a closed
  instance needs tables.
\<close>

definition unicode_sample :: unicode where
  "unicode_sample =
     \<lparr>IsLetter = (\<lambda>r. r = 0xE9 \<or> r = 0xC9), IsDigit = (\<lambda>r. False),
      IsSpace = (\<lambda>r. r = 0xA0), TitleCase = (\<lambda>r. if r = 0xE9 then 0xC9 else r)\<rparr>"

text \<open>
  UTF-8, as \<^verbatim>\<open>range\<close> over a string and \<^verbatim>\<open>utf8.DecodeRuneInString\<close> read it and as
  \<^verbatim>\<open>utf8.AppendRune\<close> writes it; bytes are their values. \<^verbatim>\<open>first\<close> gives, for a leading byte
  of a multi-byte sequence, the length of the sequence and the range accepted for the second
  byte. A byte that starts no well-formed sequence is read as \<^verbatim>\<open>RuneError\<close>, of width 1. A
  rune that is no Unicode scalar value is written as \<^verbatim>\<open>RuneError\<close>.
\<close>

definition RuneError :: nat where
  "RuneError = 0xFFFD"

definition first :: "nat \<Rightarrow> (nat \<times> nat \<times> nat) option" where
  "first s0 =
     (if 0xC2 \<le> s0 \<and> s0 \<le> 0xDF then Some (2, 0x80, 0xBF)
      else if s0 = 0xE0 then Some (3, 0xA0, 0xBF)
      else if 0xE1 \<le> s0 \<and> s0 \<le> 0xEC then Some (3, 0x80, 0xBF)
      else if s0 = 0xED then Some (3, 0x80, 0x9F)
      else if 0xEE \<le> s0 \<and> s0 \<le> 0xEF then Some (3, 0x80, 0xBF)
      else if s0 = 0xF0 then Some (4, 0x90, 0xBF)
      else if 0xF1 \<le> s0 \<and> s0 \<le> 0xF3 then Some (4, 0x80, 0xBF)
      else if s0 = 0xF4 then Some (4, 0x80, 0x8F)
      else None)"

definition DecodeRune :: "nat \<Rightarrow> nat list \<Rightarrow> nat \<times> nat" where
  "DecodeRune s0 rest =
     (if s0 < 0x80 then (s0, 1)
      else
        (case first s0 of
           None \<Rightarrow> (RuneError, 1)
         | Some (sz, lo, hi) \<Rightarrow>
             if length rest + 1 < sz then (RuneError, 1)
             else
               (let s1 = rest ! 0 in
                if s1 < lo \<or> hi < s1 then (RuneError, 1)
                else if sz \<le> 2 then ((s0 mod 0x20) * 0x40 + s1 mod 0x40, 2)
                else
                  (let s2 = rest ! 1 in
                   if s2 < 0x80 \<or> 0xBF < s2 then (RuneError, 1)
                   else if sz \<le> 3 then
                     ((s0 mod 0x10) * 0x1000 + (s1 mod 0x40) * 0x40 + s2 mod 0x40, 3)
                   else
                     (let s3 = rest ! 2 in
                      if s3 < 0x80 \<or> 0xBF < s3 then (RuneError, 1)
                      else
                        ((s0 mod 8) * 0x40000 + (s1 mod 0x40) * 0x1000 + (s2 mod 0x40) * 0x40
                           + s3 mod 0x40, 4))))))"

fun runes :: "nat list \<Rightarrow> nat list" where
  "runes [] = []"
| "runes (s0 # rest) =
     (case DecodeRune s0 rest of (r, width) \<Rightarrow> r # runes (drop (width - 1) rest))"

definition EncodeRune :: "nat \<Rightarrow> nat list" where
  "EncodeRune r =
     (if r \<le> 0x7F then [r]
      else if r \<le> 0x7FF then [0xC0 + r div 0x40, 0x80 + r mod 0x40]
      else if r > 0x10FFFF \<or> (0xD800 \<le> r \<and> r \<le> 0xDFFF) then [0xEF, 0xBF, 0xBD]
      else if r \<le> 0xFFFF then
        [0xE0 + r div 0x1000, 0x80 + (r div 0x40) mod 0x40, 0x80 + r mod 0x40]
      else
        [0xF0 + r div 0x40000, 0x80 + (r div 0x1000) mod 0x40, 0x80 + (r div 0x40) mod 0x40,
         0x80 + r mod 0x40])"


text \<open>
  \<^verbatim>\<open>strings.Title\<close>, with \<^verbatim>\<open>isSeparator\<close> of package \<^verbatim>\<open>strings\<close> and \<^verbatim>\<open>unicode.ToTitle\<close>. The
  closure given to \<^verbatim>\<open>strings.Map\<close> is called once for every rune of the string, in order,
  with \<^verbatim>\<open>prev\<close> the rune before (a space at the start): a rune that follows a separator is
  mapped to title case. \<^verbatim>\<open>strings.Map\<close> returns the mapped runes, encoded; where no rune
  changes and every byte is well formed, that is the string itself.
\<close>

definition isSeparator :: "unicode \<Rightarrow> nat \<Rightarrow> bool" where
  "isSeparator U r =
     (if r \<le> 0x7F then
        \<not> ((of_char (CHR ''0'') \<le> r \<and> r \<le> of_char (CHR ''9''))
           \<or> (of_char (CHR ''a'') \<le> r \<and> r \<le> of_char (CHR ''z''))
           \<or> (of_char (CHR ''A'') \<le> r \<and> r \<le> of_char (CHR ''Z''))
           \<or> r = of_char (CHR ''_''))
      else if IsLetter U r \<or> IsDigit U r then False
      else IsSpace U r)"

definition ToTitle :: "unicode \<Rightarrow> nat \<Rightarrow> nat" where
  "ToTitle U r =
     (if r \<le> 0x7F then
        (if of_char (CHR ''a'') \<le> r \<and> r \<le> of_char (CHR ''z'')
         then r - (of_char (CHR ''a'') - of_char (CHR ''A'')) else r)
      else TitleCase U r)"

fun Title_from :: "unicode \<Rightarrow> nat \<Rightarrow> nat list \<Rightarrow> nat list" where
  "Title_from U prev [] = []"
| "Title_from U prev (r # rs) =
     (if isSeparator U prev then ToTitle U r else r) # Title_from U r rs"

definition Title :: "unicode \<Rightarrow> string \<Rightarrow> string" where
  "Title U s =
     map char_of (concat (map EncodeRune
       (Title_from U (of_char (CHR '' '')) (runes (map of_char s)))))"

text \<open>Decimal digits of a number, for the \<^verbatim>\<open>fmt\<close> verbs below.\<close>

fun dec_nat :: "nat \<Rightarrow> string" where
  "dec_nat n =
     (if n < 10 then [''0123456789'' ! n]
      else dec_nat (n div 10) @ [''0123456789'' ! (n mod 10)])"

declare dec_nat.simps [simp del]

definition dec_int :: "int \<Rightarrow> string" where
  "dec_int i = (if i < 0 then CHR ''-'' # dec_nat (nat (- i)) else dec_nat (nat i))"

text \<open>
  \<^verbatim>\<open>fmt.Sprint(x)\<close> of one value, and what the verb \<^verbatim>\<open>%s\<close> of \<^verbatim>\<open>fmt.Sprintf\<close> prints for it:
  a string is printed as it is, any other value as the bad-verb notice
  \<^verbatim>\<open>%!s(type=value)\<close>.
\<close>

fun Sprint :: "iface \<Rightarrow> string" where
  "Sprint INil = ''<nil>''"
| "Sprint (IString s) = s"
| "Sprint (IInt i) = dec_int i"
| "Sprint (IBool b) = (if b then ''true'' else ''false'')"

fun Sprintf_s :: "iface \<Rightarrow> string" where
  "Sprintf_s INil = ''%!s(<nil>)''"
| "Sprintf_s (IString s) = s"
| "Sprintf_s (IInt i) = ''%!s(int='' @ dec_int i @ '')''"
| "Sprintf_s (IBool b) = ''%!s(bool='' @ (if b then ''true'' else ''false'') @ '')''"

section \<open>Validation failures and their messages\<close>

text \<open>\<^verbatim>\<open>type ValidationError struct\<close> (form.go, lines 229-235).\<close>

record ValidationError =
  Field :: string
  Value :: string
  Type :: string
  Override :: string
  Param :: iface

text \<open>
  \<^verbatim>\<open>func (v *ValidationError) Error() string\<close> (form.go, lines 237-255): the override if
  there is one, else the title-cased kind, replaced for the three kinds of the switch.
\<close>

definition Error :: "unicode \<Rightarrow> ValidationError \<Rightarrow> string" where
  "Error U v =
     (if length (Override v) > 0 then Override v
      else
        (let out = Title U (Type v) in
         if Type v = ''email'' then ''Invalid Email''
         else if Type v = ''len'' then ''Invalid Length,needs: '' @ Sprintf_s (Param v)
         else if Type v = ''alpha'' then ''Letters Only''
         else out))"





section \<open>Field descriptors and the form\<close>

text \<open>
  Modelled from the spec: the declaration of the \<^verbatim>\<open>field\<close> struct is not in form.go, which
  only reads and assigns its members (\<^verbatim>\<open>Name\<close>, \<^verbatim>\<open>Type\<close>, \<^verbatim>\<open>Value\<close>, \<^verbatim>\<open>Items\<close>,
  \<^verbatim>\<open>SelectValue\<close>, \<^verbatim>\<open>Errors\<close>, \<^verbatim>\<open>Prefix\<close>) and names the others in the default template.
  The members and their types follow the data model of the spec: \<^verbatim>\<open>Value\<close> is the stringified
  content of the member, \<^verbatim>\<open>Items\<close> maps a display label to an option value.

  A Go map is iterated in an order the runtime chooses. A map that is iterated is therefore
  a list of its entries, in the order of that iteration; a statement that holds for every
  such list holds for every order.
\<close>

type_synonym items = "(string \<times> iface) list"

record field =
  Name :: string
  ID :: string
  Label :: string
  Placeholder :: string
  Footer :: string
  Type :: string
  Value :: string
  Items :: items
  SelectValue :: string
  SelectType :: string
  Errors :: "string list"
  Attrs :: string
  Prefix :: string

text \<open>
  \<^verbatim>\<open>f.Tpl.Execute(&sb, field)\<close> either fails with an error or writes the markup of the field;
  the template engine is an external collaborator.
\<close>

type_synonym template = "field \<Rightarrow> string + string"

text \<open>
  \<^verbatim>\<open>type Form struct\<close> (form.go, lines 23-33). \<^verbatim>\<open>Tpl\<close> is a pointer and may be nil. \<^verbatim>\<open>Decoder\<close>
  and \<^verbatim>\<open>Validator\<close> are handles of the schema and validator libraries; rendering does not
  read them and they are left out. A nil map and an empty one read alike.
\<close>

record Form =
  Tpl :: "template option"
  selectMap :: "string \<rightharpoonup> items"
  Action :: string
  Method :: string
  Prefix :: string
  Skip :: "string list"
  Errors :: "string \<rightharpoonup> string list"

text \<open>The zero values \<^verbatim>\<open>field{}\<close> and \<^verbatim>\<open>Form{}\<close>.\<close>

definition field_zero :: field where
  "field_zero =
     \<lparr>Name = [], ID = [], Label = [], Placeholder = [], Footer = [], field.Type = [],
      field.Value = [], Items = [], SelectValue = [], SelectType = [], field.Errors = [],
      Attrs = [], field.Prefix = []\<rparr>"

definition Form_zero :: Form where
  "Form_zero =
     \<lparr>Tpl = None, selectMap = Map.empty, Action = [], Method = [], Prefix = [], Skip = [],
      Errors = Map.empty\<rparr>"

text \<open>\<^verbatim>\<open>SkipField\<close> and \<^verbatim>\<open>Select\<close> (form.go, lines 174-187), returning the updated form.\<close>

definition SkipField :: "Form \<Rightarrow> string \<Rightarrow> Form" where
  "SkipField f skip = f\<lparr>Skip := Skip f @ [skip]\<rparr>"

definition Select :: "Form \<Rightarrow> string \<Rightarrow> items \<Rightarrow> Form" where
  "Select f nm mp = f\<lparr>selectMap := (selectMap f)(nm \<mapsto> mp)\<rparr>"

section \<open>Presentation of one field\<close>

text \<open>
  The loop over \<^verbatim>\<open>f.Skip\<close> (form.go, lines 380-398 and 303-321), returning \<^verbatim>\<open>dump\<close>. The slice
  expression \<^verbatim>\<open>sv[len(sv)-1:]\<close> panics for an empty entry, unless the entry equals the name.
\<close>

fun skip_scan :: "string list \<Rightarrow> string \<Rightarrow> bool go" where
  "skip_scan [] name = Return False"
| "skip_scan (sv # svs) name =
     (if sv = name then Return True
      else if length sv = 0 then Panic SliceBoundsOutOfRange
      else if drop (length sv - 1) sv = ''.'' \<and> Contains name sv then Return True
      else skip_scan svs name)"

text \<open>
  The reverse lookup (lines 411-416 and 334-339): \<^verbatim>\<open>for v, k := range it\<close> visits the entries
  and every entry whose value equals \<^verbatim>\<open>field.Value\<close> overwrites \<^verbatim>\<open>SelectValue\<close> with its key.
  A value that is not a string never equals the string \<^verbatim>\<open>field.Value\<close>.
\<close>

fun select_lookup :: "items \<Rightarrow> field \<Rightarrow> field" where
  "select_lookup [] fld = fld"
| "select_lookup ((v, k) # it) fld =
     select_lookup it (if k = IString (field.Value fld) then fld\<lparr>SelectValue := v\<rparr> else fld)"

text \<open>Lines 404-420 and 327-343.\<close>

definition select_enrich :: "Form \<Rightarrow> field \<Rightarrow> field" where
  "select_enrich f fld =
     (if field.Type fld = ''select'' \<or> field.Type fld = ''checkbox'' then
        (case selectMap f (Name fld) of
           Some it \<Rightarrow> select_lookup it (fld\<lparr>Items := it\<rparr>)
         | None \<Rightarrow> fld)
      else fld)"

text \<open>Lines 424-428 and 347-351.\<close>

fun attach_errors :: "unicode \<Rightarrow> ValidationError list \<Rightarrow> field \<Rightarrow> field" where
  "attach_errors U [] fld = fld"
| "attach_errors U (ee # errs) fld =
     attach_errors U errs
       (if Field ee = Name fld then fld\<lparr>field.Errors := field.Errors fld @ [Error U ee]\<rparr>
        else fld)"

text \<open>
  The body of the loop over the fields, from \<^verbatim>\<open>field.Prefix = f.Prefix\<close> up to the call of
  the template (lines 376-428 of \<^verbatim>\<open>Render\<close>, the same text as lines 299-351 of
  \<^verbatim>\<open>RenderField\<close>): the field is dropped (\<^verbatim>\<open>continue\<close>), or it is the value handed to
  \<^verbatim>\<open>f.Tpl.Execute\<close>.
\<close>

datatype step = Dumped | Presented field

definition present :: "unicode \<Rightarrow> Form \<Rightarrow> ValidationError list \<Rightarrow> field \<Rightarrow> step go" where
  "present U f errs field0 =
     (let fld = field0\<lparr>field.Prefix := Form.Prefix f\<rparr> in
      case skip_scan (Skip f) (Name fld) of
        Panic p \<Rightarrow> Panic p
      | Return dump \<Rightarrow>
          if dump = True then Return Dumped
          else Return (Presented (attach_errors U errs (select_enrich f fld))))"

section \<open>Render and RenderField\<close>

text \<open>
  Both functions return \<^verbatim>\<open>(template.HTML, error)\<close>; next to it the model returns the form as
  the call leaves it, since \<^verbatim>\<open>f\<close> is a pointer. An error of the template ends the call
  with empty markup; a nil \<^verbatim>\<open>Tpl\<close> panics when it is executed.
\<close>

type_synonym rendered = "(string \<times> string option) go \<times> Form"

definition execute :: "Form \<Rightarrow> field \<Rightarrow> (string + string) go" where
  "execute f fld = (case Tpl f of None \<Rightarrow> Panic NilPointerDereference | Some t \<Rightarrow> Return (t fld))"

fun Render_loop ::
  "unicode \<Rightarrow> Form \<Rightarrow> ValidationError list \<Rightarrow> string \<Rightarrow> field list \<Rightarrow> rendered" where
  "Render_loop U f errs html [] = (Return (html, None), f)"
| "Render_loop U f errs html (field0 # flds) =
     (case present U f errs field0 of
        Panic p \<Rightarrow> (Panic p, f)
      | Return Dumped \<Rightarrow> Render_loop U f errs html flds
      | Return (Presented fld) \<Rightarrow>
          (case execute f fld of
             Panic p \<Rightarrow> (Panic p, f)
           | Return (Inl err) \<Rightarrow> (Return ([], Some err), f)
           | Return (Inr sb) \<Rightarrow> Render_loop U f errs (html @ sb) flds))"

fun RenderField_loop ::
  "unicode \<Rightarrow> Form \<Rightarrow> string \<Rightarrow> ValidationError list \<Rightarrow> string \<Rightarrow> field list \<Rightarrow> rendered" where
  "RenderField_loop U f field_name errs html [] = (Return (html, None), f)"
| "RenderField_loop U f field_name errs html (field0 # flds) =
     (if Name field0 \<noteq> field_name then RenderField_loop U f field_name errs html flds
      else
        (case present U f errs field0 of
           Panic p \<Rightarrow> (Panic p, f)
         | Return Dumped \<Rightarrow> RenderField_loop U f field_name errs html flds
         | Return (Presented fld) \<Rightarrow>
             (case execute f fld of
                Panic p \<Rightarrow> (Panic p, f)
              | Return (Inl err) \<Rightarrow> (Return ([], Some err), f)
              | Return (Inr sb) \<Rightarrow> RenderField_loop U f field_name errs (html @ sb) flds)))"

text \<open>The variadic \<^verbatim>\<open>errs_raw ...[]ValidationError\<close>: its first element, if any.\<close>

definition first_errs :: "ValidationError list list \<Rightarrow> ValidationError list" where
  "first_errs errs_raw = (if length errs_raw > 0 then hd errs_raw else [])"

text \<open>
  \<^verbatim>\<open>Render\<close> (lines 363-438) and \<^verbatim>\<open>RenderField\<close> (lines 282-361). The argument \<^verbatim>\<open>flds\<close> is
  the value of \<^verbatim>\<open>fields(v)\<close>, the extraction of the record \<^verbatim>\<open>v\<close>, whose code is not in
  form.go.
\<close>

definition Render ::
  "unicode \<Rightarrow> Form \<Rightarrow> field list \<Rightarrow> ValidationError list list \<Rightarrow> rendered" where
  "Render U f flds errs_raw = Render_loop U f (first_errs errs_raw) [] flds"

definition RenderField ::
  "unicode \<Rightarrow> Form \<Rightarrow> field list \<Rightarrow> string \<Rightarrow> ValidationError list list \<Rightarrow> rendered" where
  "RenderField U f flds field_name errs_raw =
     RenderField_loop U f field_name (first_errs errs_raw) [] flds"

section \<open>Validate\<close>

text \<open>
  What \<^verbatim>\<open>f.Validator.Struct(holder)\<close> returns when it is not nil: the validator library is
  external. A \<^verbatim>\<open>FieldError\<close> answers \<^verbatim>\<open>Field()\<close>, \<^verbatim>\<open>Value()\<close>, \<^verbatim>\<open>Tag()\<close> and \<^verbatim>\<open>Param()\<close>.
\<close>

datatype FieldError =
  FieldError (fe_Field: string) (fe_Value: iface) (fe_Tag: string) (fe_Param: string)

datatype StructError =
    InvalidValidationError
  | ValidationErrors "FieldError list"
  | OtherError string

text \<open>
  \<^verbatim>\<open>Validate\<close> (lines 257-280), from the value \<^verbatim>\<open>ve\<close> of the call in line 261 on. \<^verbatim>\<open>vee\<close> starts
  as the nil slice. The type assertion of line 270 has no second result, so it panics on
  any other error.
\<close>

definition to_ValidationError :: "FieldError \<Rightarrow> ValidationError" where
  "to_ValidationError err =
     \<lparr>Field = fe_Field err, ValidationError.Value = Sprint (fe_Value err),
      ValidationError.Type = fe_Tag err, Override = [],
      Param = IString (fe_Param err)\<rparr>"

fun Validate :: "StructError option \<Rightarrow> (bool \<times> ValidationError list) go" where
  "Validate None = Return (True, [])"
| "Validate (Some InvalidValidationError) = Return (False, [])"
| "Validate (Some (ValidationErrors errs)) = Return (False, [] @ map to_ValidationError errs)"
| "Validate (Some (OtherError e)) = Panic TypeAssertionFailed"

section \<open>New\<close>

text \<open>
  The package variables \<^verbatim>\<open>basetmpl\<close> (set by \<^verbatim>\<open>init\<close>) and \<^verbatim>\<open>basepath\<close> (set by \<^verbatim>\<open>BasePath\<close>), and
  the library calls of \<^verbatim>\<open>New\<close>: \<^verbatim>\<open>ioutil.ReadFile\<close>, \<^verbatim>\<open>filepath.Join\<close>, and the parse of the
  template text with the function maps installed.
\<close>

record world =
  basetmpl :: string
  basepath :: string
  ReadFile :: "string \<Rightarrow> string + string"
  Join :: "string \<Rightarrow> string \<Rightarrow> string"
  Parse :: "string \<Rightarrow> string + template"

text \<open>Lines 78-91: the path that is read.\<close>

definition template_path :: "world \<Rightarrow> string list \<Rightarrow> string" where
  "template_path w pth =
     (let p = (if length pth > 0 then hd pth else [])
      in if length (basepath w) > 0 then Join w (basepath w) p else p)"

text \<open>
  \<^verbatim>\<open>New\<close> (lines 76-172). \<^verbatim>\<open>template.Must\<close> panics when the parse fails. The result is the
  pointer \<^verbatim>\<open>&f\<close> together with \<^verbatim>\<open>errf\<close>, the error of the read.
\<close>

definition New :: "world \<Rightarrow> string list \<Rightarrow> (Form option \<times> string option) go" where
  "New w pth =
     (let frm = ReadFile w (template_path w pth);
          errf = (case frm of Inl e \<Rightarrow> Some e | Inr _ \<Rightarrow> None);
          frmstr = (case frm of Inl _ \<Rightarrow> basetmpl w | Inr content \<Rightarrow> content)
      in case Parse w frmstr of
           Inl e \<Rightarrow> Panic (TemplateMust e)
         | Inr tpl \<Rightarrow>
             Return (Some (Form_zero\<lparr>Errors := Map.empty, Tpl := Some tpl\<rparr>), errf))"

section \<open>Field extraction\<close>

text \<open>
  Modelled from the spec: the function \<^verbatim>\<open>fields(v)\<close> that \<^verbatim>\<open>Render\<close> and \<^verbatim>\<open>RenderField\<close> call, the
  walk over the members of a record, is not in form.go. What follows is the Field Extractor
  of the spec (sections 3, 4.2 and 4.3).

  A record is the list of its declared members, in declaration order. A member has a
  name, a tag, the marker by which it opts out of the form, and its content: a leaf with
  its declared type and its current value, stringified (empty if absent or zero); a
  nested record; a pointer to a nested record; or such a pointer left unset, of which only
  the members that the pointee type declares are known.
\<close>

datatype kind = KString | KBool | KNumber | KTime | KOther

datatype rvalue =
    Leaf kind string
  | Struct "member list"
  | Ptr "member list"
  | NilPtr "member list"
and member = Member (mname: string) (mtag: string) (mexcluded: bool) (mvalue: rvalue)

text \<open>
  The zero value: a leaf holds nothing, a nested record is zero member by member, a
  pointer is nil.
\<close>

fun zero :: "rvalue \<Rightarrow> rvalue" and zero_member :: "member \<Rightarrow> member" where
  "zero (Leaf k s) = Leaf k []"
| "zero (Struct ms) = Struct (map zero_member ms)"
| "zero (Ptr ms) = NilPtr ms"
| "zero (NilPtr ms) = NilPtr ms"
| "zero_member (Member n t e v) = Member n t e (zero v)"

fun is_leaf :: "rvalue \<Rightarrow> bool" where
  "is_leaf (Leaf k s) = True"
| "is_leaf v = False"

text \<open>
  Section 4.2: the name of a member is its own name at the top level, and the names of
  its ancestors and its own, joined by dots, below.
\<close>

fun dotted :: "string list \<Rightarrow> string" where
  "dotted [] = []"
| "dotted [a] = a"
| "dotted (a # b # r) = a @ ''.'' @ dotted (b # r)"

text \<open>
  Section 4.3, step 3. The options of a leaf that come from its tag and its declared type
  (\<^verbatim>\<open>Type\<close>, \<^verbatim>\<open>Label\<close>, \<^verbatim>\<open>Placeholder\<close>, \<^verbatim>\<open>Footer\<close>, \<^verbatim>\<open>Attrs\<close>) are resolved by the parameter
  \<^verbatim>\<open>describe\<close>, from the name, the tag and the declared type of the member; the walk sets
  \<^verbatim>\<open>Name\<close> and \<^verbatim>\<open>Value\<close>.
\<close>

type_synonym describe = "string \<Rightarrow> string \<Rightarrow> kind \<Rightarrow> field"

definition leaf_field ::
  "describe \<Rightarrow> string list \<Rightarrow> string \<Rightarrow> string \<Rightarrow> kind \<Rightarrow> string \<Rightarrow> field" where
  "leaf_field d anc n tag k s = (d n tag k)\<lparr>Name := dotted (anc @ [n]), field.Value := s\<rparr>"

text \<open>
  Section 4.3, steps 1 and 2: a member that opts out yields nothing; a nested record is
  walked with the member's name added to the ancestors, and yields no field of its own; a
  pointer that is unset is walked as the zero value of its pointee.
\<close>

function extract_fields :: "describe \<Rightarrow> string list \<Rightarrow> member list \<Rightarrow> field list" where
  "extract_fields d anc [] = []"
| "extract_fields d anc (Member n tag ex v # ms) =
     (if ex then []
      else
        (case v of
           Leaf k s \<Rightarrow> [leaf_field d anc n tag k s]
         | Struct inner \<Rightarrow> extract_fields d (anc @ [n]) inner
         | Ptr inner \<Rightarrow> extract_fields d (anc @ [n]) inner
         | NilPtr inner \<Rightarrow> extract_fields d (anc @ [n]) (map zero_member inner)))
     @ extract_fields d anc ms"
  by pat_completeness auto
termination
proof -
  have "size (zero v) = size v" and same: "size (zero_member m) = size m" for v m
    by (induction v and m)
       (auto simp: size_list_conv_sum_list comp_def intro!: arg_cong [where f = sum_list])
  show ?thesis
    by (relation "measure (\<lambda>(d, anc, ms). size_list size ms)")
       (auto simp: size_list_conv_sum_list comp_def same)
qed

section \<open>Properties of the library functions\<close>

lemma Contains_iff: "Contains s substr \<longleftrightarrow> (\<exists>p q. s = p @ substr @ q)"
proof (induction s)
  case Nil
  then show ?case by auto
next
  case (Cons c s)
  show ?case
  proof
    assume "Contains (c # s) substr"
    then consider "prefix substr (c # s)" | "Contains s substr" by auto
    then show "\<exists>p q. c # s = p @ substr @ q"
    proof cases
      case 1
      then obtain q where "c # s = substr @ q" by (auto simp: prefix_def)
      then have "c # s = [] @ substr @ q" by simp
      then show ?thesis by blast
    next
      case 2
      with Cons.IH obtain p q where "s = p @ substr @ q" by blast
      then have "c # s = (c # p) @ substr @ q" by simp
      then show ?thesis by blast
    qed
  next
    assume "\<exists>p q. c # s = p @ substr @ q"
    then obtain p q where pq: "c # s = p @ substr @ q" by blast
    show "Contains (c # s) substr"
    proof (cases p)
      case Nil
      with pq have "prefix substr (c # s)" by (simp add: prefix_def)
      then show ?thesis by simp
    next
      case (Cons a p')
      with pq have "s = p' @ substr @ q" by simp
      with Cons.IH have "Contains s substr" by blast
      then show ?thesis by simp
    qed
  qed
qed

lemma Contains_self: "Contains s s"
  by (cases s) auto

lemma drop_last_byte:
  assumes "sv \<noteq> []"
  shows "drop (length sv - Suc 0) sv = [last sv]"
proof -
  have "sv = butlast sv @ [last sv]" using assms by simp
  then have "drop (length (butlast sv)) sv = [last sv]" by (metis append_eq_conv_conj)
  then show ?thesis by simp
qed

section \<open>Messages of validation failures\<close>





















section \<open>The steps of the presentation\<close>

lemma skip_scan_append:
  "skip_scan (svs @ [sv]) name =
     (case skip_scan svs name of
        Return False \<Rightarrow> skip_scan [sv] name
      | r \<Rightarrow> r)"
  by (induction svs) auto

lemma skip_scan_subtree:
  assumes "sv \<noteq> []" and "last sv = CHR ''.''"
  shows "skip_scan [sv] name = Return (Contains name sv)"
  using assms by (auto simp: drop_last_byte Contains_self)

lemma attach_errors_eq:
  "attach_errors U errs fld =
     fld\<lparr>field.Errors := field.Errors fld @ map (Error U) [ee \<leftarrow> errs. Field ee = Name fld]\<rparr>"
  by (induction errs arbitrary: fld) auto

lemma select_lookup_eq:
  "select_lookup it fld =
     (case [e \<leftarrow> it. snd e = IString (field.Value fld)] of
        [] \<Rightarrow> fld
      | m # ms \<Rightarrow> fld\<lparr>SelectValue := fst (last (m # ms))\<rparr>)"
proof (induction it arbitrary: fld)
  case Nil
  then show ?case by simp
next
  case (Cons e it)
  obtain v k where e: "e = (v, k)" by (cases e)
  show ?case
    by (cases "[e \<leftarrow> it. snd e = IString (field.Value fld)]")
       (auto simp: e Cons.IH)
qed

lemma select_lookup_unique:
  assumes "(lbl, IString (field.Value fld)) \<in> set it"
    and "\<forall>e \<in> set it. snd e = IString (field.Value fld) \<longrightarrow> fst e = lbl"
  shows "select_lookup it fld = fld\<lparr>SelectValue := lbl\<rparr>"
proof -
  let ?ms = "[e \<leftarrow> it. snd e = IString (field.Value fld)]"
  have "(lbl, IString (field.Value fld)) \<in> set ?ms" using assms(1) by simp
  then obtain m ms where ms: "?ms = m # ms" by (cases ?ms) auto
  have "last (m # ms) \<in> set ?ms"
    unfolding ms [symmetric] using ms by (metis last_in_set list.distinct(1))
  then have "fst (last (m # ms)) = lbl" using assms(2) by auto
  then show ?thesis by (simp add: select_lookup_eq ms)
qed

lemma select_enrich_SkipField: "select_enrich (SkipField f sv) y = select_enrich f y"
  by (simp add: select_enrich_def SkipField_def)

lemma select_enrich_frame:
  "Name (select_enrich f fld) = Name fld \<and> ID (select_enrich f fld) = ID fld
   \<and> field.Prefix (select_enrich f fld) = field.Prefix fld
   \<and> field.Errors (select_enrich f fld) = field.Errors fld"
  by (simp add: select_enrich_def select_lookup_eq split: option.split list.split)

lemma present_SkipField:
  "present U (SkipField f sv) errs fld =
     (case skip_scan (Skip f @ [sv]) (Name fld) of
        Panic p \<Rightarrow> Panic p
      | Return dump \<Rightarrow>
          if dump then Return Dumped
          else Return (Presented (attach_errors U errs
                 (select_enrich f (fld\<lparr>field.Prefix := Form.Prefix f\<rparr>)))))"
  by (simp add: present_def select_enrich_SkipField split: go.split)
     (simp add: SkipField_def)

lemma present_Presented:
  assumes "present U f errs fld = Return (Presented x)"
  shows "x = attach_errors U errs (select_enrich f (fld\<lparr>field.Prefix := Form.Prefix f\<rparr>))"
  using assms by (auto simp: present_def Let_def split: go.splits if_splits)

lemma present_Dumped:
  "present U f errs fld = Return Dumped \<longleftrightarrow> skip_scan (Skip f) (Name fld) = Return True"
  by (auto simp: present_def split: go.splits)

section \<open>Skip filtering\<close>

text \<open>
  C1, as the code has it. Registering a skip entry that ends in the path separator, such
  as \<^verbatim>\<open>Address.\<close>, removes exactly the fields, among those presented before, whose name
  contains the entry anywhere (\<^verbatim>\<open>strings.Contains\<close>), not only as a prefix; every other
  field is presented as before, and a panic of the scan stays one.
\<close>

theorem skip_subtree_contains:
  assumes "sv \<noteq> []" and "last sv = CHR ''.''"
  shows "present U (SkipField f sv) errs fld =
     (case present U f errs fld of
        Return (Presented x) \<Rightarrow>
          if Contains (Name fld) sv then Return Dumped else Return (Presented x)
      | r \<Rightarrow> r)"
proof -
  have scan: "skip_scan (Skip f @ [sv]) (Name fld) =
     (case skip_scan (Skip f) (Name fld) of
        Return False \<Rightarrow> Return (Contains (Name fld) sv)
      | r \<Rightarrow> r)"
    by (simp only: skip_scan_append skip_scan_subtree [OF assms])
  show ?thesis
  proof (cases "skip_scan (Skip f) (Name fld)")
    case (Panic p)
    then show ?thesis by (simp add: present_SkipField scan) (simp add: present_def)
  next
    case (Return dump)
    then show ?thesis
      by (cases dump) (simp_all add: present_SkipField scan, simp_all add: present_def)
  qed
qed

theorem skip_subtree_contains_witness:
  "''Address.'' \<noteq> [] \<and> last ''Address.'' = CHR ''.''
   \<and> present unicode_sample (SkipField Form_zero ''Address.'') [] (field_zero\<lparr>Name := ''Address.Street1''\<rparr>)
       = Return Dumped
   \<and> present unicode_sample (SkipField Form_zero ''Address.'') [] (field_zero\<lparr>Name := ''Email''\<rparr>)
       = Return (Presented (field_zero\<lparr>Name := ''Email''\<rparr>))"
  using
    skip_subtree_contains [of "''Address.''" unicode_sample Form_zero "[]"
      "field_zero\<lparr>Name := ''Address.Street1''\<rparr>"]
    skip_subtree_contains [of "''Address.''" unicode_sample Form_zero "[]" "field_zero\<lparr>Name := ''Email''\<rparr>"]
  by (simp add: present_def Form_zero_def field_zero_def select_enrich_def)

text \<open>
  The field named \<^verbatim>\<open>MailAddress.Street1\<close> does not have the prefix \<^verbatim>\<open>Address.\<close>, and the skip
  entry \<^verbatim>\<open>Address.\<close> removes it all the same.
\<close>

theorem skip_prefix_counterexample:
  "\<not> prefix ''Address.'' ''MailAddress.Street1''
   \<and> present unicode_sample (SkipField Form_zero ''Address.'') [] (field_zero\<lparr>Name := ''MailAddress.Street1''\<rparr>)
       = Return Dumped"
  by (simp add: present_def Form_zero_def field_zero_def SkipField_def)

section \<open>Select and checkbox enrichment\<close>

text \<open>
  C2, as the code has it. For a field of type select or checkbox that is presented, with a
  select map registered under its name: the map is attached as \<^verbatim>\<open>Items\<close>, and when one key
  of the map, and no other, is mapped to the field's \<^verbatim>\<open>Value\<close>, that key becomes
  \<^verbatim>\<open>SelectValue\<close>, in whatever order the map is iterated. The key is the display label
  and the mapped value the stored one: the map that turns \<^verbatim>\<open>CA\<close> into \<^verbatim>\<open>California\<close> is
  \<^verbatim>\<open>{"California": "CA", "New York": "NY"}\<close>.
\<close>

theorem select_reverse_lookup:
  assumes "field.Type fld = ''select'' \<or> field.Type fld = ''checkbox''"
    and "(lbl, IString (field.Value fld)) \<in> set mp"
    and "\<forall>e \<in> set mp. snd e = IString (field.Value fld) \<longrightarrow> fst e = lbl"
    and "present U (Select f (Name fld) mp) errs fld = Return (Presented x)"
  shows "SelectValue x = lbl \<and> Items x = mp"
proof -
  let ?f = "Select f (Name fld) mp"
  let ?fld = "fld\<lparr>field.Prefix := Form.Prefix ?f, Items := mp\<rparr>"
  have "select_lookup mp ?fld = ?fld\<lparr>SelectValue := lbl\<rparr>"
    using assms(2,3) by (intro select_lookup_unique) simp_all
  then have "select_enrich ?f (fld\<lparr>field.Prefix := Form.Prefix ?f\<rparr>) = ?fld\<lparr>SelectValue := lbl\<rparr>"
    using assms(1) by (auto simp: select_enrich_def Select_def)
  then have "x = attach_errors U errs (?fld\<lparr>SelectValue := lbl\<rparr>)"
    using present_Presented [OF assms(4)] by simp
  then show ?thesis by (simp add: attach_errors_eq)
qed

theorem select_reverse_lookup_witness:
  "present unicode_sample (Select Form_zero ''State'' [(''New York'', IString ''NY''), (''California'', IString ''CA'')])
       [] (field_zero\<lparr>Name := ''State'', field.Type := ''select'', field.Value := ''CA''\<rparr>)
     = Return (Presented (field_zero\<lparr>Name := ''State'', field.Type := ''select'', field.Value := ''CA'',
         Items := [(''New York'', IString ''NY''), (''California'', IString ''CA'')],
         SelectValue := ''California''\<rparr>))
   \<and> SelectValue (field_zero\<lparr>Name := ''State'', field.Type := ''select'', field.Value := ''CA'',
         Items := [(''New York'', IString ''NY''), (''California'', IString ''CA'')],
         SelectValue := ''California''\<rparr>) = ''California''"
  using select_reverse_lookup [of
      "field_zero\<lparr>Name := ''State'', field.Type := ''select'', field.Value := ''CA''\<rparr>"
      "''California''" "[(''New York'', IString ''NY''), (''California'', IString ''CA'')]"
      unicode_sample Form_zero "[]"
      "field_zero\<lparr>Name := ''State'', field.Type := ''select'', field.Value := ''CA'',
         Items := [(''New York'', IString ''NY''), (''California'', IString ''CA'')],
         SelectValue := ''California''\<rparr>"]
  by (simp add: present_def Form_zero_def field_zero_def select_enrich_def Select_def)

text \<open>
  With the map \<^verbatim>\<open>{"CA": "California", "NY": "New York"}\<close> no mapped value equals \<^verbatim>\<open>CA\<close>: in
  either order of iteration \<^verbatim>\<open>SelectValue\<close> stays empty.
\<close>

theorem select_example_counterexample:
  "present unicode_sample (Select Form_zero ''State'' [(''CA'', IString ''California''), (''NY'', IString ''New York'')])
       [] (field_zero\<lparr>Name := ''State'', field.Type := ''select'', field.Value := ''CA''\<rparr>)
     = Return (Presented (field_zero\<lparr>Name := ''State'', field.Type := ''select'', field.Value := ''CA'',
         Items := [(''CA'', IString ''California''), (''NY'', IString ''New York'')],
         SelectValue := []\<rparr>))
   \<and> present unicode_sample (Select Form_zero ''State'' [(''NY'', IString ''New York''), (''CA'', IString ''California'')])
       [] (field_zero\<lparr>Name := ''State'', field.Type := ''select'', field.Value := ''CA''\<rparr>)
     = Return (Presented (field_zero\<lparr>Name := ''State'', field.Type := ''select'', field.Value := ''CA'',
         Items := [(''NY'', IString ''New York''), (''CA'', IString ''California'')],
         SelectValue := []\<rparr>))
   \<and> [] \<noteq> ''California''"
  by (simp add: present_def Form_zero_def field_zero_def select_enrich_def Select_def)

section \<open>The namespace prefix\<close>

text \<open>
  C3, as the code has it. A presented field carries the prefix registered in the form in
  its member \<^verbatim>\<open>Prefix\<close>, the same for every field; its \<^verbatim>\<open>Name\<close> and its \<^verbatim>\<open>ID\<close> are those of
  the extracted field, with nothing prepended.
\<close>

theorem prefix_member_only:
  assumes "present U f errs fld = Return (Presented x)"
  shows "Name x = Name fld \<and> ID x = ID fld \<and> field.Prefix x = Form.Prefix f"
  using present_Presented [OF assms]
  by (simp add: attach_errors_eq select_enrich_frame)

theorem prefix_member_only_witness:
  "present unicode_sample (Form_zero\<lparr>Prefix := ''user_''\<rparr>) [] (field_zero\<lparr>Name := ''Email'', ID := ''email''\<rparr>)
     = Return (Presented (field_zero\<lparr>Name := ''Email'', ID := ''email'', field.Prefix := ''user_''\<rparr>))
   \<and> Name (field_zero\<lparr>Name := ''Email'', ID := ''email'', field.Prefix := ''user_''\<rparr>) = ''Email''
   \<and> ID (field_zero\<lparr>Name := ''Email'', ID := ''email'', field.Prefix := ''user_''\<rparr>) = ''email''
   \<and> field.Prefix (field_zero\<lparr>Name := ''Email'', ID := ''email'', field.Prefix := ''user_''\<rparr>)
       = ''user_''"
  using prefix_member_only [of unicode_sample "Form_zero\<lparr>Prefix := ''user_''\<rparr>" "[]"
      "field_zero\<lparr>Name := ''Email'', ID := ''email''\<rparr>"
      "field_zero\<lparr>Name := ''Email'', ID := ''email'', field.Prefix := ''user_''\<rparr>"]
  by (simp add: present_def Form_zero_def field_zero_def select_enrich_def)

text \<open>
  With the prefix \<^verbatim>\<open>user_\<close> registered, the field \<^verbatim>\<open>Email\<close> is handed to the template under the
  name \<^verbatim>\<open>Email\<close> and the identifier \<^verbatim>\<open>email\<close>, not \<^verbatim>\<open>user_Email\<close> and \<^verbatim>\<open>user_email\<close>.
\<close>

theorem prefix_rewrite_counterexample:
  "present unicode_sample (Form_zero\<lparr>Prefix := ''user_''\<rparr>) [] (field_zero\<lparr>Name := ''Email'', ID := ''email''\<rparr>)
     = Return (Presented (field_zero\<lparr>Name := ''Email'', ID := ''email'', field.Prefix := ''user_''\<rparr>))
   \<and> Name (field_zero\<lparr>Name := ''Email'', ID := ''email'', field.Prefix := ''user_''\<rparr>)
       \<noteq> ''user_'' @ ''Email''
   \<and> ID (field_zero\<lparr>Name := ''Email'', ID := ''email'', field.Prefix := ''user_''\<rparr>)
       \<noteq> ''user_'' @ ''email''"
  by (simp add: present_def Form_zero_def field_zero_def select_enrich_def)

section \<open>Error attachment\<close>

text \<open>
  C4. A presented field that was extracted without errors carries one message for every
  reported failure whose field name equals its name, in the order of the report. So a
  single failure of kind \<^verbatim>\<open>email\<close> without override on its name gives the one message
  \<^verbatim>\<open>Invalid Email\<close>, and a field that no failure names carries none.
\<close>

theorem error_attachment:
  assumes "present U f errs fld = Return (Presented x)" and "field.Errors fld = []"
  shows "field.Errors x = map (Error U) [ee \<leftarrow> errs. Field ee = Name fld]
   \<and> ([ee \<leftarrow> errs. Field ee = Name fld] = [e] \<and> ValidationError.Type e = ''email''
        \<and> Override e = [] \<longrightarrow> field.Errors x = [''Invalid Email''])
   \<and> ((\<forall>ee \<in> set errs. Field ee \<noteq> Name fld) \<longrightarrow> field.Errors x = [])"
proof -
  have eq: "field.Errors x = map (Error U) [ee \<leftarrow> errs. Field ee = Name fld]"
    using present_Presented [OF assms(1)] assms(2)
    by (simp add: attach_errors_eq select_enrich_frame)
  have none: "(\<forall>ee \<in> set errs. Field ee \<noteq> Name fld) \<Longrightarrow> [ee \<leftarrow> errs. Field ee = Name fld] = []"
    by (simp add: filter_empty_conv)
  show ?thesis using eq none by (auto simp: Error_def)
qed

theorem error_attachment_witness:
  "present unicode_sample Form_zero
      [\<lparr>Field = ''Email'', ValidationError.Value = ''x'', ValidationError.Type = ''email'',
        Override = [], Param = IString []\<rparr>]
      (field_zero\<lparr>Name := ''Email''\<rparr>)
     = Return (Presented (field_zero\<lparr>Name := ''Email'', field.Errors := [''Invalid Email'']\<rparr>))
   \<and> present unicode_sample Form_zero
      [\<lparr>Field = ''Email'', ValidationError.Value = ''x'', ValidationError.Type = ''email'',
        Override = [], Param = IString []\<rparr>]
      (field_zero\<lparr>Name := ''Phone''\<rparr>)
     = Return (Presented (field_zero\<lparr>Name := ''Phone'', field.Errors := []\<rparr>))"
  using error_attachment [of unicode_sample Form_zero
      "[\<lparr>Field = ''Email'', ValidationError.Value = ''x'', ValidationError.Type = ''email'',
        Override = [], Param = IString []\<rparr>]"
      "field_zero\<lparr>Name := ''Email''\<rparr>"
      "field_zero\<lparr>Name := ''Email'', field.Errors := [''Invalid Email'']\<rparr>"
      "\<lparr>Field = ''Email'', ValidationError.Value = ''x'', ValidationError.Type = ''email'',
        Override = [], Param = IString []\<rparr>"]
  by (simp add: present_def Form_zero_def field_zero_def select_enrich_def Error_def)

section \<open>Render and RenderField\<close>

lemma Render_loop_form: "snd (Render_loop U f errs html flds) = f"
  by (induction flds arbitrary: html)
     (auto split: go.split step.split sum.split)

lemma RenderField_loop_filter:
  "RenderField_loop U f field_name errs html flds =
     Render_loop U f errs html [x \<leftarrow> flds. Name x = field_name]"
  by (induction flds arbitrary: html)
     (auto split: go.split step.split sum.split)

lemma Render_loop_all_dumped:
  assumes "\<forall>x \<in> set flds. present U f errs x = Return Dumped"
  shows "Render_loop U f errs html flds = (Return (html, None), f)"
  using assms by (induction flds) auto

text \<open>
  C7. Whatever the extracted fields, the skip list, the select maps and the failures are,
  and however the call ends, \<^verbatim>\<open>Render\<close> leaves the form as it found it: in particular its
  \<^verbatim>\<open>Skip\<close>, its \<^verbatim>\<open>selectMap\<close> and its \<^verbatim>\<open>Prefix\<close>.
\<close>

theorem Render_keeps_configuration:
  "snd (Render U f flds errs_raw) = f
   \<and> Skip (snd (Render U f flds errs_raw)) = Skip f
   \<and> selectMap (snd (Render U f flds errs_raw)) = selectMap f
   \<and> Form.Prefix (snd (Render U f flds errs_raw)) = Form.Prefix f"
  by (simp add: Render_def Render_loop_form)

theorem Render_keeps_configuration_witness:
  "snd (Render unicode_sample (SkipField (Form_zero\<lparr>Tpl := Some (\<lambda>fld. Inr (Name fld)), Prefix := ''p''\<rparr>) ''B'')
          [field_zero\<lparr>Name := ''A''\<rparr>, field_zero\<lparr>Name := ''B''\<rparr>] [])
     = SkipField (Form_zero\<lparr>Tpl := Some (\<lambda>fld. Inr (Name fld)), Prefix := ''p''\<rparr>) ''B''
   \<and> fst (Render unicode_sample (SkipField (Form_zero\<lparr>Tpl := Some (\<lambda>fld. Inr (Name fld)), Prefix := ''p''\<rparr>) ''B'')
          [field_zero\<lparr>Name := ''A''\<rparr>, field_zero\<lparr>Name := ''B''\<rparr>] [])
     = Return (''A'', None)"
  using Render_keeps_configuration [of unicode_sample
      "SkipField (Form_zero\<lparr>Tpl := Some (\<lambda>fld. Inr (Name fld)), Prefix := ''p''\<rparr>) ''B''"
      "[field_zero\<lparr>Name := ''A''\<rparr>, field_zero\<lparr>Name := ''B''\<rparr>]" "[]"]
  by (simp add: Render_def first_errs_def present_def execute_def Form_zero_def field_zero_def
        SkipField_def select_enrich_def)

text \<open>
  C10. \<^verbatim>\<open>RenderField\<close> is \<^verbatim>\<open>Render\<close> on the extracted fields that have the given name. When no
  field has that name, or when the scan of the skip list drops that name, the result is
  the empty markup and no error.
\<close>

theorem RenderField_only_named:
  "RenderField U f flds field_name errs_raw = Render U f [x \<leftarrow> flds. Name x = field_name] errs_raw
   \<and> ((\<forall>x \<in> set flds. Name x \<noteq> field_name) \<longrightarrow>
        RenderField U f flds field_name errs_raw = (Return ([], None), f))
   \<and> (skip_scan (Skip f) field_name = Return True \<longrightarrow>
        RenderField U f flds field_name errs_raw = (Return ([], None), f))"
proof -
  have eq: "RenderField U f flds field_name errs_raw
      = Render U f [x \<leftarrow> flds. Name x = field_name] errs_raw"
    by (simp add: RenderField_def Render_def RenderField_loop_filter)
  have none: "(\<forall>x \<in> set flds. Name x \<noteq> field_name) \<Longrightarrow> [x \<leftarrow> flds. Name x = field_name] = []"
    by (simp add: filter_empty_conv)
  have dumped: "Render_loop U f (first_errs errs_raw) [] [x \<leftarrow> flds. Name x = field_name]
      = (Return ([], None), f)" if "skip_scan (Skip f) field_name = Return True"
    using that by (intro Render_loop_all_dumped) (simp add: present_Dumped)
  show ?thesis using eq none dumped by (auto simp: Render_def)
qed

theorem RenderField_only_named_witness:
  "RenderField unicode_sample (Form_zero\<lparr>Tpl := Some (\<lambda>fld. Inr (Name fld))\<rparr>)
      [field_zero\<lparr>Name := ''A''\<rparr>, field_zero\<lparr>Name := ''B''\<rparr>] ''B'' []
     = (Return (''B'', None), Form_zero\<lparr>Tpl := Some (\<lambda>fld. Inr (Name fld))\<rparr>)
   \<and> RenderField unicode_sample (Form_zero\<lparr>Tpl := Some (\<lambda>fld. Inr (Name fld))\<rparr>)
      [field_zero\<lparr>Name := ''A''\<rparr>, field_zero\<lparr>Name := ''B''\<rparr>] ''C'' []
     = (Return ([], None), Form_zero\<lparr>Tpl := Some (\<lambda>fld. Inr (Name fld))\<rparr>)
   \<and> RenderField unicode_sample (Form_zero\<lparr>Tpl := Some (\<lambda>fld. Inr (Name fld)), Skip := [''B'']\<rparr>)
      [field_zero\<lparr>Name := ''A''\<rparr>, field_zero\<lparr>Name := ''B''\<rparr>] ''B'' []
     = (Return ([], None), Form_zero\<lparr>Tpl := Some (\<lambda>fld. Inr (Name fld)), Skip := [''B'']\<rparr>)"
  using
    RenderField_only_named [of unicode_sample "Form_zero\<lparr>Tpl := Some (\<lambda>fld. Inr (Name fld))\<rparr>"
      "[field_zero\<lparr>Name := ''A''\<rparr>, field_zero\<lparr>Name := ''B''\<rparr>]" "''B''" "[]"]
    RenderField_only_named [of unicode_sample "Form_zero\<lparr>Tpl := Some (\<lambda>fld. Inr (Name fld))\<rparr>"
      "[field_zero\<lparr>Name := ''A''\<rparr>, field_zero\<lparr>Name := ''B''\<rparr>]" "''C''" "[]"]
    RenderField_only_named [of unicode_sample "Form_zero\<lparr>Tpl := Some (\<lambda>fld. Inr (Name fld)), Skip := [''B'']\<rparr>"
      "[field_zero\<lparr>Name := ''A''\<rparr>, field_zero\<lparr>Name := ''B''\<rparr>]" "''B''" "[]"]
  by (simp add: Render_def first_errs_def present_def execute_def Form_zero_def field_zero_def
        select_enrich_def)

section \<open>The outcomes of Validate\<close>

text \<open>
  C6. \<^verbatim>\<open>Validate\<close> answers true with no failures when the record is valid, false with no
  failures when the validator rejects the shape of its argument, and false with one
  failure for every field error when the validation fails; the validator reports field
  errors only when there is at least one, so the three answers differ from one another.
\<close>

theorem Validate_outcomes_distinct:
  "Validate None = Return (True, [])
   \<and> Validate (Some InvalidValidationError) = Return (False, [])
   \<and> Validate None \<noteq> Validate (Some InvalidValidationError)
   \<and> (errs \<noteq> [] \<longrightarrow>
        Validate (Some (ValidationErrors errs)) = Return (False, map to_ValidationError errs)
        \<and> length (map to_ValidationError errs) = length errs
        \<and> Validate (Some (ValidationErrors errs)) \<noteq> Validate None
        \<and> Validate (Some (ValidationErrors errs)) \<noteq> Validate (Some InvalidValidationError))"
  by simp

theorem Validate_outcomes_distinct_witness:
  "Validate (Some (ValidationErrors [FieldError ''Email'' (IString ''x'') ''email'' []]))
     = Return (False, [\<lparr>Field = ''Email'', ValidationError.Value = ''x'',
         ValidationError.Type = ''email'', Override = [], Param = IString []\<rparr>])
   \<and> Validate (Some (ValidationErrors [FieldError ''Email'' (IString ''x'') ''email'' []]))
       \<noteq> Validate (Some InvalidValidationError)
   \<and> Validate (Some (ValidationErrors [FieldError ''Email'' (IString ''x'') ''email'' []]))
       \<noteq> Validate None"
  using Validate_outcomes_distinct [of "[FieldError ''Email'' (IString ''x'') ''email'' []]"]
  by (simp add: to_ValidationError_def)

section \<open>The result of New\<close>

text \<open>
  C9, as the code has it. \<^verbatim>\<open>New\<close> reads the template file and selects its text, or the
  built-in default template when the read fails. When the selected text parses, \<^verbatim>\<open>New\<close>
  returns a form that is not nil, with that template installed, together with the error of
  the read, if any: so with the default template and the error when the read fails. When
  the selected text does not parse, \<^verbatim>\<open>New\<close> does not return: it panics. Whenever it returns,
  the form is not nil and has a template.
\<close>

theorem New_installs_template:
  "(ReadFile w (template_path w pth) = Inl e \<and> Parse w (basetmpl w) = Inr tpl \<longrightarrow>
      New w pth = Return (Some (Form_zero\<lparr>Tpl := Some tpl\<rparr>), Some e))
   \<and> (ReadFile w (template_path w pth) = Inr content \<and> Parse w content = Inr tpl \<longrightarrow>
      New w pth = Return (Some (Form_zero\<lparr>Tpl := Some tpl\<rparr>), None))
   \<and> (ReadFile w (template_path w pth) = Inl e \<and> Parse w (basetmpl w) = Inl pe \<longrightarrow>
      New w pth = Panic (TemplateMust pe))
   \<and> (ReadFile w (template_path w pth) = Inr content \<and> Parse w content = Inl pe \<longrightarrow>
      New w pth = Panic (TemplateMust pe))
   \<and> (New w pth = Return (frm, err) \<longrightarrow> (\<exists>f t. frm = Some f \<and> Tpl f = Some t))"
  by (auto simp: New_def Let_def Form_zero_def split: sum.splits)

theorem New_installs_template_witness:
  "New \<lparr>basetmpl = ''<div>'', basepath = ''/tmp/form'',
        ReadFile = (\<lambda>p. Inl ''open: no such file''),
        Join = (\<lambda>a b. a @ b),
        Parse = (\<lambda>t. if t = ''{{'' then Inl ''unclosed action'' else Inr (\<lambda>fld. Inr t))\<rparr>
      [''/formbasic.html'']
     = Return (Some (Form_zero\<lparr>Tpl := Some (\<lambda>fld. Inr ''<div>'')\<rparr>), Some ''open: no such file'')
   \<and> New \<lparr>basetmpl = ''<div>'', basepath = ''/tmp/form'',
        ReadFile = (\<lambda>p. Inr ''{{''),
        Join = (\<lambda>a b. a @ b),
        Parse = (\<lambda>t. if t = ''{{'' then Inl ''unclosed action'' else Inr (\<lambda>fld. Inr t))\<rparr>
      [''/formbasic.html'']
     = Panic (TemplateMust ''unclosed action'')"
  using
    New_installs_template [where
      w = "\<lparr>basetmpl = ''<div>'', basepath = ''/tmp/form'',
        ReadFile = (\<lambda>p. Inl ''open: no such file''),
        Join = (\<lambda>a b. a @ b),
        Parse = (\<lambda>t. if t = ''{{'' then Inl ''unclosed action'' else Inr (\<lambda>fld. Inr t))\<rparr>"
      and pth = "[''/formbasic.html'']" and e = "''open: no such file''"
      and tpl = "\<lambda>fld. Inr ''<div>''"]
    New_installs_template [where
      w = "\<lparr>basetmpl = ''<div>'', basepath = ''/tmp/form'',
        ReadFile = (\<lambda>p. Inr ''{{''),
        Join = (\<lambda>a b. a @ b),
        Parse = (\<lambda>t. if t = ''{{'' then Inl ''unclosed action'' else Inr (\<lambda>fld. Inr t))\<rparr>"
      and pth = "[''/formbasic.html'']" and content = "''{{''" and pe = "''unclosed action''"]
  by (simp add: template_path_def)

text \<open>
  A template file that is read but does not parse: \<^verbatim>\<open>template.Must\<close> panics, and \<^verbatim>\<open>New\<close>
  returns nothing.
\<close>

theorem New_panics_counterexample:
  "New \<lparr>basetmpl = ''<div>'', basepath = [],
        ReadFile = (\<lambda>p. if p = ''/bad.html'' then Inr ''{{'' else Inl ''open: no such file''),
        Join = (\<lambda>a b. a @ b),
        Parse = (\<lambda>t. if t = ''{{'' then Inl ''unclosed action'' else Inr (\<lambda>fld. Inr t))\<rparr>
      [''/bad.html'']
     = Panic (TemplateMust ''unclosed action'')"
  by (simp add: New_def template_path_def)

section \<open>Extraction of an unset pointer\<close>

lemma zero_idem: "zero (zero v) = zero v"
  and zero_member_idem: "zero_member (zero_member m) = zero_member m"
  by (induction v and m) auto

lemma zero_member_twice: "zero_member \<circ> zero_member = zero_member"
  by (rule ext) (simp add: zero_member_idem)

lemma extract_zero_Value:
  "\<forall>x \<in> set (extract_fields d anc (map zero_member ms)). field.Value x = []"
proof (induction d anc ms rule: extract_fields.induct)
  case (1 d anc)
  then show ?case by simp
next
  case (2 d anc n tag ex v ms)
  show ?case
  proof (cases ex)
    case True
    then show ?thesis using 2 by simp
  next
    case False
    then show ?thesis using 2
      by (cases v) (auto simp: leaf_field_def zero_member_twice)
  qed
qed

lemma extract_zero_Name:
  "map Name (extract_fields d anc (map zero_member ms)) = map Name (extract_fields d anc ms)"
proof (induction d anc ms rule: extract_fields.induct)
  case (1 d anc)
  then show ?case by simp
next
  case (2 d anc n tag ex v ms)
  show ?case
  proof (cases ex)
    case True
    then show ?thesis using 2 by simp
  next
    case False
    then show ?thesis using 2
      by (cases v) (auto simp: leaf_field_def zero_member_twice)
  qed
qed

lemma extract_leaves:
  assumes "\<forall>m \<in> set ms. \<not> mexcluded m \<and> is_leaf (mvalue m)"
  shows "map Name (extract_fields d anc ms) = map (\<lambda>m. dotted (anc @ [mname m])) ms"
  using assms
proof (induction ms)
  case Nil
  then show ?case by simp
next
  case (Cons m ms)
  obtain n tag ex v where m: "m = Member n tag ex v" by (cases m)
  with Cons.prems obtain k s where v: "v = Leaf k s" and ex: "\<not> ex" by (cases v) auto
  show ?case using Cons by (simp add: m v ex leaf_field_def)
qed

text \<open>
  C8. A member that is a pointer to a nested record and is unset is not skipped: the walk
  goes through the zero value of the pointee and yields its fields where the member
  stands, every one of them with an empty \<^verbatim>\<open>Value\<close>, under the same names as when the
  pointer is set; when the members of the pointee are leaves that do not opt out, that is
  one field for each of them.
\<close>

theorem nil_pointer_walked:
  "extract_fields d anc (Member n tag False (NilPtr inner) # ms)
     = extract_fields d (anc @ [n]) (map zero_member inner) @ extract_fields d anc ms
   \<and> (\<forall>x \<in> set (extract_fields d anc [Member n tag False (NilPtr inner)]). field.Value x = [])
   \<and> map Name (extract_fields d anc [Member n tag False (NilPtr inner)])
       = map Name (extract_fields d anc [Member n tag False (Ptr inner)])
   \<and> ((\<forall>m \<in> set inner. \<not> mexcluded m \<and> is_leaf (mvalue m)) \<longrightarrow>
        map Name (extract_fields d anc [Member n tag False (NilPtr inner)])
          = map (\<lambda>m. dotted (anc @ [n, mname m])) inner)"
proof -
  have names: "map Name (extract_fields d anc [Member n tag False (NilPtr inner)])
       = map Name (extract_fields d (anc @ [n]) inner)"
    by (simp add: extract_zero_Name)
  have leaves: "map Name (extract_fields d (anc @ [n]) inner)
       = map (\<lambda>m. dotted (anc @ [n, mname m])) inner"
    if "\<forall>m \<in> set inner. \<not> mexcluded m \<and> is_leaf (mvalue m)"
    using extract_leaves [OF that, of d "anc @ [n]"] by simp
  show ?thesis using names leaves extract_zero_Value [of d "anc @ [n]" inner]
    by simp
qed

theorem nil_pointer_walked_witness:
  "map Name (extract_fields (\<lambda>n tag k. field_zero\<lparr>Label := n\<rparr>) []
      [Member ''Name'' [] False (Leaf KString []),
       Member ''Address'' [] False
         (NilPtr [Member ''Street1'' ''label=Street'' False (Leaf KString [])])])
     = [''Name'', ''Address.Street1'']
   \<and> map field.Value (extract_fields (\<lambda>n tag k. field_zero\<lparr>Label := n\<rparr>) []
      [Member ''Name'' [] False (Leaf KString []),
       Member ''Address'' [] False
         (NilPtr [Member ''Street1'' ''label=Street'' False (Leaf KString [])])])
     = [[], []]"
  using nil_pointer_walked [of "\<lambda>n tag k. field_zero\<lparr>Label := n\<rparr>" "[]" "''Address''" "[]"
      "[Member ''Street1'' ''label=Street'' False (Leaf KString [])]" "[]"]
  by (simp add: leaf_field_def field_zero_def)

end
